theory Spec2Isabelle
  imports Main
begin

section \<open>Package logging of go-gcf: a shallow embedding\<close>

text \<open>
  The package \<^verbatim>\<open>logging\<close> (file \<^verbatim>\<open>logging/logging.go\<close>) wraps the Stackdriver client for
  Google Cloud Functions. It keeps one package variable, \<^verbatim>\<open>logger\<close>, set by \<^verbatim>\<open>init\<close>;
  it derives an execution id from a request or from a context; and every log call either
  hands an entry to the client or prints a line on a console stream.

  The embedding passes the state of the process explicitly (record \<open>World\<close>): the package
  variable, the two console streams, and the entries handed to the client so far.
  Functions of the Go standard library and of the Google client libraries that the
  package calls are modelled after their documented behaviour, each under the name the
  source calls it by; where their outcome depends on the network (\<^verbatim>\<open>logging.NewClient\<close>,
  \<^verbatim>\<open>(*logging.Logger).Flush\<close>) or is too large to embed (\<^verbatim>\<open>fmt.Sprintf\<close>), they are
  parameters of the function that calls them.
\<close>

subsection \<open>Severities\<close>

text \<open>
  \<^verbatim>\<open>logging.Severity\<close> is an integer type of \<^verbatim>\<open>cloud.google.com/go/logging\<close>; the package
  compares severities with \<^verbatim>\<open>>=\<close>. The nine named constants are declared in that
  library, not in this repository.
\<close>

type_synonym Severity = int

text \<open>
  Modelled from the spec: the nine severity constants of \<^verbatim>\<open>cloud.google.com/go/logging\<close>
  are not under src; the spec orders them default < debug < info < notice < warning <
  error < critical < alert < emergency, and the numbers are the ones of the library's
  \<^verbatim>\<open>LogSeverity\<close> enumeration (0, 100, ..., 800).
\<close>

definition logging_Default :: Severity where "logging_Default = 0"
definition logging_Debug :: Severity where "logging_Debug = 100"
definition logging_Info :: Severity where "logging_Info = 200"
definition logging_Notice :: Severity where "logging_Notice = 300"
definition logging_Warning :: Severity where "logging_Warning = 400"
definition logging_Error :: Severity where "logging_Error = 500"
definition logging_Critical :: Severity where "logging_Critical = 600"
definition logging_Alert :: Severity where "logging_Alert = 700"
definition logging_Emergency :: Severity where "logging_Emergency = 800"

subsection \<open>Contexts and requests\<close>

text \<open>
  \<^verbatim>\<open>metadata.Metadata\<close>: of its fields the package reads \<^verbatim>\<open>EventID\<close> only; the others live
  in the extension part of the record.
\<close>

record Metadata =
  EventID :: string

text \<open>
  A \<^verbatim>\<open>context.Context\<close> is \<^verbatim>\<open>context.Background()\<close> or a parent extended by
  \<^verbatim>\<open>context.WithValue\<close>. Keys are compared with Go's \<^verbatim>\<open>==\<close>, which tells values of
  different types apart: \<open>contextKey\<close> is this package's unexported \<^verbatim>\<open>contextKey{}\<close>,
  \<open>metadataKey\<close> is the key of package \<^verbatim>\<open>metadata\<close>, and \<open>otherKey\<close> stands for the keys
  of any other package. A value is an \<^verbatim>\<open>interface{}\<close>: a string, a \<^verbatim>\<open>*Metadata\<close> (which may
  be a nil pointer), or a value of some other type.
\<close>

datatype ctx_key = contextKey | metadataKey | otherKey string

datatype ctx_val = stringVal string | metadataVal "Metadata option" | otherVal string

datatype Context = Background | WithValue Context ctx_key ctx_val

text \<open>\<^verbatim>\<open>ctx.Value(k)\<close>: the innermost value stored under \<open>k\<close>, \<^verbatim>\<open>nil\<close> (\<open>None\<close>) if there is none.\<close>

fun Value :: "Context \<Rightarrow> ctx_key \<Rightarrow> ctx_val option" where
  "Value Background k = None"
| "Value (WithValue parent key val) k = (if key = k then Some val else Value parent k)"

text \<open>
  \<^verbatim>\<open>metadata.FromContext\<close> returns a pair \<^verbatim>\<open>(*Metadata, error)\<close>: an error for a nil context
  and when the value under the metadata key is not a \<^verbatim>\<open>*Metadata\<close>; otherwise the pointer
  stored there (a stored nil pointer comes back as nil, without an error).
\<close>

definition FromContext :: "Context option \<Rightarrow> Metadata option \<times> string option" where
  "FromContext ctx =
     (case ctx of
        None \<Rightarrow> (None, Some ''nil ctx'')
      | Some c \<Rightarrow>
          (case Value c metadataKey of
             Some (metadataVal meta) \<Rightarrow> (meta, None)
           | _ \<Rightarrow> (None, Some ''unable to find metadata'')))"

text \<open>
  An \<^verbatim>\<open>http.Request\<close>: its context field (nil until one is set) and its header, a map
  from canonical header names to the list of values received.
\<close>

record Request =
  Request_ctx :: "Context option"
  Header :: "string \<rightharpoonup> string list"

text \<open>\<^verbatim>\<open>r.Context()\<close> is never nil: the background context stands in for a missing one.\<close>

definition Request_Context :: "Request \<Rightarrow> Context" where
  "Request_Context r = (case Request_ctx r of Some c \<Rightarrow> c | None \<Rightarrow> Background)"

text \<open>
  \<^verbatim>\<open>Header.Get(key)\<close>: the first value stored under the canonical form of \<open>key\<close>, the empty
  string if there is none. The only key the package asks for, \<^verbatim>\<open>Function-Execution-Id\<close>,
  is its own canonical form, so the model looks the key up as given.
\<close>

definition Header_Get :: "(string \<rightharpoonup> string list) \<Rightarrow> string \<Rightarrow> string" where
  "Header_Get h key = (case h key of None \<Rightarrow> [] | Some [] \<Rightarrow> [] | Some (v # _) \<Rightarrow> v)"

text \<open>\<^verbatim>\<open>ForRequest\<close>, lines 65 to 72.\<close>

definition ForRequest :: "Request \<Rightarrow> Context" where
  "ForRequest r =
     (let ctx0 = Request_Context r;
          id0 = Header_Get (Header r) ''Function-Execution-Id''
      in if id0 \<noteq> [] then WithValue ctx0 contextKey (stringVal id0) else ctx0)"

subsection \<open>Loggers\<close>

text \<open>The struct \<^verbatim>\<open>Logger\<close>, lines 83 to 86; its fields \<^verbatim>\<open>s\<close> and \<^verbatim>\<open>id\<close>.\<close>

record Logger =
  Logger_s :: Severity
  Logger_id :: string

text \<open>
  \<^verbatim>\<open>newLogger\<close>, lines 129 to 139. The type assertion \<^verbatim>\<open>ctx.Value(contextKey{}).(string)\<close>
  in its two-result form gives the empty string when the value is missing or is not a
  string.
\<close>

definition newLogger :: "Context option \<Rightarrow> Severity \<Rightarrow> Logger" where
  "newLogger ctx sev =
     (let l = \<lparr>Logger_s = sev, Logger_id = []\<rparr>
      in case ctx of
           None \<Rightarrow> l
         | Some c \<Rightarrow>
             (case fst (FromContext ctx) of
                Some meta \<Rightarrow> l\<lparr>Logger_id := EventID meta\<rparr>
              | None \<Rightarrow>
                  l\<lparr>Logger_id := (case Value c contextKey of Some (stringVal x) \<Rightarrow> x | _ \<Rightarrow> [])\<rparr>))"

text \<open>The nine exported factories, lines 142 to 184.\<close>

definition Default :: "Context option \<Rightarrow> Logger" where
  "Default ctx = newLogger ctx logging_Default"

definition Debug :: "Context option \<Rightarrow> Logger" where
  "Debug ctx = newLogger ctx logging_Debug"

definition Info :: "Context option \<Rightarrow> Logger" where
  "Info ctx = newLogger ctx logging_Info"

definition Notice :: "Context option \<Rightarrow> Logger" where
  "Notice ctx = newLogger ctx logging_Notice"

definition Warning :: "Context option \<Rightarrow> Logger" where
  "Warning ctx = newLogger ctx logging_Warning"

definition Error :: "Context option \<Rightarrow> Logger" where
  "Error ctx = newLogger ctx logging_Error"

definition Critical :: "Context option \<Rightarrow> Logger" where
  "Critical ctx = newLogger ctx logging_Critical"

definition Alert :: "Context option \<Rightarrow> Logger" where
  "Alert ctx = newLogger ctx logging_Alert"

definition Emergency :: "Context option \<Rightarrow> Logger" where
  "Emergency ctx = newLogger ctx logging_Emergency"

text \<open>
  The exported factories in the order of the source, each with the severity its name
  stands for.
\<close>

definition factories :: "(string \<times> (Context option \<Rightarrow> Logger) \<times> Severity) list" where
  "factories =
     [(''Default'', Default, logging_Default),
      (''Debug'', Debug, logging_Debug),
      (''Info'', Info, logging_Info),
      (''Notice'', Notice, logging_Notice),
      (''Warning'', Warning, logging_Warning),
      (''Error'', Error, logging_Error),
      (''Critical'', Critical, logging_Critical),
      (''Alert'', Alert, logging_Alert),
      (''Emergency'', Emergency, logging_Emergency)]"

subsection \<open>Formatting\<close>

text \<open>
  The operands of a log call are \<^verbatim>\<open>interface{}\<close> values; the model has strings, integers,
  booleans and errors (an error prints as its message).
\<close>

datatype operand = StringOp string | IntOp int | BoolOp bool | ErrorOp string

fun isString :: "operand \<Rightarrow> bool" where
  "isString (StringOp _) = True"
| "isString _ = False"

fun decimal :: "nat \<Rightarrow> string" where
  "decimal n =
     (if n < 10 then [''0123456789'' ! n]
      else decimal (n div 10) @ [''0123456789'' ! (n mod 10)])"

declare decimal.simps [simp del]

text \<open>\<^verbatim>\<open>printArg(arg, 'v')\<close>: the default format of an operand.\<close>

fun printArg :: "operand \<Rightarrow> string" where
  "printArg (StringOp x) = x"
| "printArg (IntOp i) = (if i < 0 then ''-'' @ decimal (nat (- i)) else decimal (nat i))"
| "printArg (BoolOp b) = (if b then ''true'' else ''false'')"
| "printArg (ErrorOp msg) = msg"

text \<open>
  \<^verbatim>\<open>fmt.Sprint\<close>: a space goes between two operands when neither is a string. The loop of
  \<^verbatim>\<open>doPrint\<close> carries the operand's index and whether the previous operand was a string.
\<close>

fun doPrint :: "nat \<Rightarrow> bool \<Rightarrow> operand list \<Rightarrow> string" where
  "doPrint argNum prevString [] = []"
| "doPrint argNum prevString (arg # a) =
     (if argNum > 0 \<and> \<not> isString arg \<and> \<not> prevString then '' '' else [])
       @ printArg arg @ doPrint (Suc argNum) (isString arg) a"

definition fmt_Sprint :: "operand list \<Rightarrow> string" where
  "fmt_Sprint a = doPrint 0 False a"

text \<open>\<^verbatim>\<open>fmt.Sprintln\<close>: a space between any two operands, and a newline at the end.\<close>

fun doPrintln :: "nat \<Rightarrow> operand list \<Rightarrow> string" where
  "doPrintln argNum [] = ''\<newline>''"
| "doPrintln argNum (arg # a) =
     (if argNum > 0 then '' '' else []) @ printArg arg @ doPrintln (Suc argNum) a"

definition fmt_Sprintln :: "operand list \<Rightarrow> string" where
  "fmt_Sprintln a = doPrintln 0 a"

text \<open>
  \<^verbatim>\<open>strings.TrimRight(s, cutset)\<close>. For a cutset of one ASCII byte the library runs the
  loop \<^verbatim>\<open>trimRightByte\<close>, which drops the last byte as long as it is the given one; this
  is the path of the package's only call, with cutset \<^verbatim>\<open>"\n"\<close>. The other branch is the
  general one, right for cutsets of ASCII bytes.
\<close>

function trimRightByte :: "string \<Rightarrow> char \<Rightarrow> string" where
  "trimRightByte s c = (if s \<noteq> [] \<and> last s = c then trimRightByte (butlast s) c else s)"
  by pat_completeness auto
termination
  by (relation "measure (\<lambda>(s, c). length s)") auto

declare trimRightByte.simps [simp del]

definition TrimRight :: "string \<Rightarrow> string \<Rightarrow> string" where
  "TrimRight s cutset =
     (if s = [] then s
      else case cutset of
             [c] \<Rightarrow>
               (if (of_char c :: nat) < 128 then trimRightByte s c
                else rev (dropWhile (\<lambda>x. x \<in> set cutset) (rev s)))
           | _ \<Rightarrow> rev (dropWhile (\<lambda>x. x \<in> set cutset) (rev s)))"

subsection \<open>The state of the process\<close>

text \<open>
  \<^verbatim>\<open>logging.Entry\<close>, with the three fields the package sets; \<^verbatim>\<open>Labels\<close> is a Go map, nil
  (the empty map) unless the package assigns it.
\<close>

record Entry =
  Severity :: Severity
  Payload :: string
  Labels :: "string \<rightharpoonup> string"

text \<open>
  \<^verbatim>\<open>monitoredres.MonitoredResource\<close>, the client made by \<^verbatim>\<open>logging.NewClient\<close> for a project,
  and the \<^verbatim>\<open>*logging.Logger\<close> that \<^verbatim>\<open>client.Logger\<close> binds to a log id and a common
  resource.
\<close>

record MonitoredResource =
  res_Type :: string
  res_Labels :: "string \<rightharpoonup> string"

record Client =
  parent :: string

record BackendLogger =
  client :: Client
  logID :: string
  commonResource :: MonitoredResource

text \<open>
  The process: the package variable \<^verbatim>\<open>logger\<close> (\<open>None\<close> is nil), what has been written
  to \<^verbatim>\<open>os.Stdout\<close> and to \<^verbatim>\<open>os.Stderr\<close>, and the entries passed to \<^verbatim>\<open>logger.Log\<close>, oldest
  first.
\<close>

record World =
  logger :: "BackendLogger option"
  stdout :: string
  stderr :: string
  handed :: "Entry list"

text \<open>\<^verbatim>\<open>fmt.Println\<close> and \<^verbatim>\<open>fmt.Fprintln(os.Stderr, ...)\<close>; a write error is ignored in Go too.\<close>

definition fmt_Println :: "operand list \<Rightarrow> World \<Rightarrow> World" where
  "fmt_Println a w = w\<lparr>stdout := stdout w @ fmt_Sprintln a\<rparr>"

definition fmt_Fprintln_Stderr :: "operand list \<Rightarrow> World \<Rightarrow> World" where
  "fmt_Fprintln_Stderr a w = w\<lparr>stderr := stderr w @ fmt_Sprintln a\<rparr>"

text \<open>\<^verbatim>\<open>logger.Log(entry)\<close> buffers the entry in the client and returns nothing.\<close>

definition backend_Log :: "Entry \<Rightarrow> World \<Rightarrow> World" where
  "backend_Log e w = w\<lparr>handed := handed w @ [e]\<rparr>"

text \<open>\<^verbatim>\<open>os.Getenv\<close>: the empty string for a variable that is not set.\<close>

definition Getenv :: "(string \<rightharpoonup> string) \<Rightarrow> string \<Rightarrow> string" where
  "Getenv env k = (case env k of None \<Rightarrow> [] | Some v \<Rightarrow> v)"

subsection \<open>Initialisation, flushing and logging\<close>

text \<open>
  \<^verbatim>\<open>init\<close>, lines 29 to 60. \<open>NewClient\<close> is \<^verbatim>\<open>logging.NewClient\<close> applied to the background
  context: given the project it returns an error (\<open>Inl\<close>, with its message) or a client.
\<close>

definition init :: "(string \<Rightarrow> string + Client) \<Rightarrow> (string \<rightharpoonup> string) \<Rightarrow> World \<Rightarrow> World" where
  "init NewClient env w =
     (let project = Getenv env ''GCP_PROJECT'';
          function = Getenv env ''FUNCTION_NAME'';
          region = Getenv env ''FUNCTION_REGION''
      in if project = [] then
           fmt_Fprintln_Stderr
             [StringOp ''Failed to create logging client:'',
              StringOp ''GCP_PROJECT environment variable unset or missing''] w
         else if function = [] then
           fmt_Fprintln_Stderr
             [StringOp ''Failed to create logging client:'',
              StringOp ''FUNCTION_NAME environment variable unset or missing''] w
         else if region = [] then
           fmt_Fprintln_Stderr
             [StringOp ''Failed to create logging client:'',
              StringOp ''FUNCTION_REGION environment variable unset or missing''] w
         else
           (case NewClient project of
              Inl err \<Rightarrow>
                fmt_Fprintln_Stderr
                  [StringOp ''Failed to create logging client:'', ErrorOp err] w
            | Inr cl \<Rightarrow>
                (let res = \<lparr>res_Type = ''cloud_function'',
                            res_Labels = [''region'' \<mapsto> region, ''function_name'' \<mapsto> function]\<rparr>
                 in w\<lparr>logger := Some \<lparr>client = cl,
                                       logID = ''cloudfunctions.googleapis.com/cloud-functions'',
                                       commonResource = res\<rparr>\<rparr>)))"

text \<open>
  \<^verbatim>\<open>Flush\<close>, lines 75 to 80. \<open>backend_Flush\<close> is \<^verbatim>\<open>(*logging.Logger).Flush\<close>: it returns nil
  (\<open>None\<close>) or the error of the transmission.
\<close>

definition Flush :: "(BackendLogger \<Rightarrow> string option) \<Rightarrow> World \<Rightarrow> string option" where
  "Flush backend_Flush w =
     (case logger w of Some lg \<Rightarrow> backend_Flush lg | None \<Rightarrow> None)"

text \<open>\<^verbatim>\<open>Logger.log\<close>, lines 88 to 110.\<close>

definition log :: "Logger \<Rightarrow> string \<Rightarrow> World \<Rightarrow> World" where
  "log l s0 w =
     (let s = TrimRight s0 ''\<newline>''
      in case logger w of
           Some lg \<Rightarrow>
             (let entry = \<lparr>Severity = Logger_s l, Payload = s, Labels = Map.empty\<rparr>;
                  entry = (if Logger_id l \<noteq> []
                           then entry\<lparr>Labels := [''execution_id'' \<mapsto> Logger_id l]\<rparr>
                           else entry)
              in backend_Log entry w)
         | None \<Rightarrow>
             (if Logger_s l \<ge> logging_Error then fmt_Fprintln_Stderr [StringOp s] w
              else fmt_Println [StringOp s] w))"

text \<open>
  \<^verbatim>\<open>Print\<close>, \<^verbatim>\<open>Println\<close> and \<^verbatim>\<open>Printf\<close>, lines 114 to 127. \<open>Sprintf\<close> is \<^verbatim>\<open>fmt.Sprintf\<close>.
\<close>

definition Print :: "Logger \<Rightarrow> operand list \<Rightarrow> World \<Rightarrow> World" where
  "Print l v w = log l (fmt_Sprint v) w"

definition Println :: "Logger \<Rightarrow> operand list \<Rightarrow> World \<Rightarrow> World" where
  "Println l v w = log l (fmt_Sprintln v) w"

definition Printf ::
  "(string \<Rightarrow> operand list \<Rightarrow> string) \<Rightarrow> Logger \<Rightarrow> string \<Rightarrow> operand list \<Rightarrow> World \<Rightarrow> World" where
  "Printf Sprintf l format v w = log l (Sprintf format v) w"

section \<open>Properties\<close>

lemmas severity_defs =
  logging_Default_def logging_Debug_def logging_Info_def logging_Notice_def
  logging_Warning_def logging_Error_def logging_Critical_def logging_Alert_def
  logging_Emergency_def

lemmas factory_defs =
  Default_def Debug_def Info_def Notice_def Warning_def Error_def Critical_def
  Alert_def Emergency_def

subsection \<open>Trimming trailing newlines\<close>

lemma trimRightByte_snoc_same: "trimRightByte (xs @ [c]) c = trimRightByte xs c"
  by (subst trimRightByte.simps) simp

lemma trimRightByte_unchanged: "s = [] \<or> last s \<noteq> c \<Longrightarrow> trimRightByte s c = s"
  by (subst trimRightByte.simps) auto

lemma trimRightByte_append_replicate:
  "trimRightByte (s @ replicate n c) c = trimRightByte s c"
proof (induction n)
  case 0
  show ?case by simp
next
  case (Suc n)
  have "s @ replicate (Suc n) c = (s @ replicate n c) @ [c]"
    by (simp add: replicate_append_same)
  then show ?case
    using Suc trimRightByte_snoc_same [of "s @ replicate n c" c] by simp
qed

lemma trimRightByte_decompose: "\<exists>k. s = trimRightByte s c @ replicate k c"
proof (induction s rule: rev_induct)
  case Nil
  show ?case by (simp add: trimRightByte_unchanged)
next
  case (snoc x xs)
  show ?case
  proof (cases "x = c")
    case True
    from snoc obtain k where k: "xs = trimRightByte xs c @ replicate k c" ..
    have "xs @ [x] = (trimRightByte xs c @ replicate k c) @ [c]"
      using k True by simp
    also have "\<dots> = trimRightByte xs c @ replicate (Suc k) c"
      by (simp add: replicate_append_same)
    finally have e1: "xs @ [x] = trimRightByte xs c @ replicate (Suc k) c" .
    have e2: "trimRightByte (xs @ [x]) c = trimRightByte xs c"
      using True by (simp add: trimRightByte_snoc_same)
    have "xs @ [x] = trimRightByte (xs @ [x]) c @ replicate (Suc k) c"
      unfolding e2 by (rule e1)
    then show ?thesis ..
  next
    case False
    then have "trimRightByte (xs @ [x]) c = xs @ [x]"
      by (simp add: trimRightByte_unchanged)
    then have "xs @ [x] = trimRightByte (xs @ [x]) c @ replicate 0 c" by simp
    then show ?thesis ..
  qed
qed

lemma trimRightByte_no_trailing:
  "trimRightByte s c = [] \<or> last (trimRightByte s c) \<noteq> c"
proof (induction s rule: rev_induct)
  case Nil
  show ?case by (simp add: trimRightByte_unchanged)
next
  case (snoc x xs)
  show ?case
  proof (cases "x = c")
    case True
    then show ?thesis using snoc by (simp add: trimRightByte_snoc_same)
  next
    case False
    then show ?thesis by (simp add: trimRightByte_unchanged)
  qed
qed

text \<open>The package's call \<^verbatim>\<open>strings.TrimRight(s, "\n")\<close> runs the byte loop.\<close>

lemma TrimRight_newline: "TrimRight s ''\<newline>'' = trimRightByte s (CHR 0x0A)"
  by (cases "s = []") (simp_all add: TrimRight_def trimRightByte_unchanged)


subsection \<open>Logging\<close>

lemma log_unset:
  "logger w = None \<Longrightarrow>
   log l msg w =
     (if Logger_s l \<ge> logging_Error
      then w\<lparr>stderr := stderr w @ TrimRight msg ''\<newline>'' @ ''\<newline>''\<rparr>
      else w\<lparr>stdout := stdout w @ TrimRight msg ''\<newline>'' @ ''\<newline>''\<rparr>)"
  by (simp add: log_def fmt_Fprintln_Stderr_def fmt_Println_def fmt_Sprintln_def)

lemma log_set:
  "logger w = Some lg \<Longrightarrow>
   log l msg w =
     w\<lparr>handed := handed w @
        [\<lparr>Severity = Logger_s l, Payload = TrimRight msg ''\<newline>'',
          Labels = (if Logger_id l \<noteq> [] then [''execution_id'' \<mapsto> Logger_id l] else Map.empty)\<rparr>]\<rparr>"
  by (simp add: log_def backend_Log_def)

text \<open>
  Claim C2. With the package variable \<^verbatim>\<open>logger\<close> nil, a call of \<^verbatim>\<open>Print\<close>, \<^verbatim>\<open>Println\<close> or
  \<^verbatim>\<open>Printf\<close> hands nothing to the backend: the formatted text, its trailing newlines
  trimmed, is written with one newline to the error stream when the Logger's severity is
  \<^verbatim>\<open>logging.Error\<close> or higher, and to standard output otherwise; the other stream is
  left as it was.
\<close>

theorem log_console_fallback:
  assumes "logger w = None"
    and "(call, msg) \<in> {(Print l v, fmt_Sprint v), (Println l v, fmt_Sprintln v),
           (Printf Sprintf l format v, Sprintf format v)}"
  shows "handed (call w) = handed w \<and> logger (call w) = None \<and>
         (if Logger_s l \<ge> logging_Error
          then stderr (call w) = stderr w @ TrimRight msg ''\<newline>'' @ ''\<newline>'' \<and>
               stdout (call w) = stdout w
          else stdout (call w) = stdout w @ TrimRight msg ''\<newline>'' @ ''\<newline>'' \<and>
               stderr (call w) = stderr w)"
proof -
  from assms(2) have "call w = log l msg w"
    by (auto simp: Print_def Println_def Printf_def)
  then show ?thesis
    using assms(1) by (simp add: log_unset)
qed

text \<open>
  Claim C4. With \<^verbatim>\<open>logger\<close> set, a call of \<^verbatim>\<open>Print\<close>, \<^verbatim>\<open>Println\<close> or \<^verbatim>\<open>Printf\<close> hands the
  backend exactly one new entry: its severity is the Logger's, its payload is the
  trimmed text, and its labels are the single label \<^verbatim>\<open>execution_id\<close> when the Logger's id
  is not empty and no label at all when it is. Neither console stream is written.
\<close>

theorem log_backend_entry:
  assumes "logger w = Some lg"
    and "(call, msg) \<in> {(Print l v, fmt_Sprint v), (Println l v, fmt_Sprintln v),
           (Printf Sprintf l format v, Sprintf format v)}"
  shows "(\<exists>e. handed (call w) = handed w @ [e] \<and>
              Severity e = Logger_s l \<and>
              Payload e = TrimRight msg ''\<newline>'' \<and>
              (dom (Labels e) = {''execution_id''}) = (Logger_id l \<noteq> []) \<and>
              Labels e = (if Logger_id l \<noteq> [] then [''execution_id'' \<mapsto> Logger_id l]
                          else Map.empty)) \<and>
         stdout (call w) = stdout w \<and> stderr (call w) = stderr w \<and>
         logger (call w) = Some lg"
proof -
  from assms(2) have "call w = log l msg w"
    by (auto simp: Print_def Println_def Printf_def)
  then show ?thesis
    using assms(1) by (simp add: log_set)
qed


text \<open>
  An instance for C2: \<^verbatim>\<open>Error(nil).Println("boom", 7)\<close> without a backend, on streams that
  already hold a byte each.
\<close>

theorem log_console_fallback_witness:
  "stderr (Println (Error None) [StringOp ''boom'', IntOp 7]
      \<lparr>logger = None, stdout = ''x'', stderr = ''y'', handed = []\<rparr>) = ''yboom 7\<newline>'' \<and>
   stdout (Println (Error None) [StringOp ''boom'', IntOp 7]
      \<lparr>logger = None, stdout = ''x'', stderr = ''y'', handed = []\<rparr>) = ''x'' \<and>
   handed (Println (Error None) [StringOp ''boom'', IntOp 7]
      \<lparr>logger = None, stdout = ''x'', stderr = ''y'', handed = []\<rparr>) = []"
proof -
  let ?w = "\<lparr>logger = None, stdout = ''x'', stderr = ''y'', handed = []\<rparr>"
  let ?v = "[StringOp ''boom'', IntOp 7]"
  have h1: "logger ?w = None" by simp
  have h2: "(Println (Error None) ?v, fmt_Sprintln ?v) \<in>
              {(Print (Error None) ?v, fmt_Sprint ?v), (Println (Error None) ?v, fmt_Sprintln ?v),
               (Printf (\<lambda>f a. f) (Error None) [] ?v, (\<lambda>f a. f) [] ?v)}"
    by simp
  have t: "TrimRight (fmt_Sprintln ?v) ''\<newline>'' = ''boom 7''"
    by (simp add: fmt_Sprintln_def TrimRight_def trimRightByte.simps decimal.simps)
  have s: "logging_Error \<le> Logger_s (Error None)"
    by (simp add: Error_def newLogger_def)
  show ?thesis
    using log_console_fallback [OF h1 h2] t s by simp
qed

text \<open>
  An instance for C4: \<^verbatim>\<open>Info(ctx).Print("hi", "\n")\<close> with a backend, where \<^verbatim>\<open>ctx\<close> carries the
  execution id \<^verbatim>\<open>abc\<close>.
\<close>

theorem log_backend_entry_witness:
  "map Payload (handed (Print (Info (Some (WithValue Background contextKey (stringVal ''abc''))))
      [StringOp ''hi'', StringOp ''\<newline>'']
      \<lparr>logger = Some \<lparr>client = \<lparr>parent = ''p''\<rparr>, logID = ''l'',
                        commonResource = \<lparr>res_Type = ''cloud_function'', res_Labels = Map.empty\<rparr>\<rparr>,
       stdout = [], stderr = [], handed = []\<rparr>)) = [''hi''] \<and>
   map (\<lambda>e. Labels e ''execution_id'')
     (handed (Print (Info (Some (WithValue Background contextKey (stringVal ''abc''))))
      [StringOp ''hi'', StringOp ''\<newline>'']
      \<lparr>logger = Some \<lparr>client = \<lparr>parent = ''p''\<rparr>, logID = ''l'',
                        commonResource = \<lparr>res_Type = ''cloud_function'', res_Labels = Map.empty\<rparr>\<rparr>,
       stdout = [], stderr = [], handed = []\<rparr>)) = [Some ''abc''] \<and>
   stdout (Print (Info (Some (WithValue Background contextKey (stringVal ''abc''))))
      [StringOp ''hi'', StringOp ''\<newline>'']
      \<lparr>logger = Some \<lparr>client = \<lparr>parent = ''p''\<rparr>, logID = ''l'',
                        commonResource = \<lparr>res_Type = ''cloud_function'', res_Labels = Map.empty\<rparr>\<rparr>,
       stdout = [], stderr = [], handed = []\<rparr>) = []"
proof -
  let ?lg = "\<lparr>client = \<lparr>parent = ''p''\<rparr>, logID = ''l'',
              commonResource = \<lparr>res_Type = ''cloud_function'', res_Labels = Map.empty\<rparr>\<rparr>"
  let ?w = "\<lparr>logger = Some ?lg, stdout = [], stderr = [], handed = []\<rparr>"
  let ?l = "Info (Some (WithValue Background contextKey (stringVal ''abc'')))"
  let ?v = "[StringOp ''hi'', StringOp ''\<newline>'']"
  have h1: "logger ?w = Some ?lg" by simp
  have h2: "(Print ?l ?v, fmt_Sprint ?v) \<in>
              {(Print ?l ?v, fmt_Sprint ?v), (Println ?l ?v, fmt_Sprintln ?v),
               (Printf (\<lambda>f a. f) ?l [] ?v, (\<lambda>f a. f) [] ?v)}"
    by simp
  have t: "TrimRight (fmt_Sprint ?v) ''\<newline>'' = ''hi''"
    by (simp add: fmt_Sprint_def TrimRight_def trimRightByte.simps)
  have i: "Logger_id ?l = ''abc''"
    by (simp add: Info_def newLogger_def FromContext_def)
  from log_backend_entry [OF h1 h2] obtain e where
    "handed (Print ?l ?v ?w) = [e]" "Payload e = ''hi''" "Labels e = [''execution_id'' \<mapsto> ''abc'']"
    "stdout (Print ?l ?v ?w) = []"
    using t i by auto
  then show ?thesis by simp
qed

subsection \<open>Execution ids\<close>

lemma newLogger_id:
  "Logger_id (newLogger ctx sev) =
     (case ctx of
        None \<Rightarrow> []
      | Some c \<Rightarrow>
          (case fst (FromContext ctx) of
             Some meta \<Rightarrow> EventID meta
           | None \<Rightarrow> (case Value c contextKey of Some (stringVal x) \<Rightarrow> x | _ \<Rightarrow> [])))"
  by (simp add: newLogger_def Let_def split: option.splits)

lemma newLogger_s: "Logger_s (newLogger ctx sev) = sev"
  by (simp add: newLogger_def Let_def split: option.splits)

lemma factories_newLogger:
  "(name, f, sev) \<in> set factories \<Longrightarrow> f = (\<lambda>ctx. newLogger ctx sev)"
  by (auto simp: factories_def factory_defs)

lemma FromContext_nil: "fst (FromContext None) = None"
  by (simp add: FromContext_def)

text \<open>
  Claim C1. For each of the nine factories and every context: when \<^verbatim>\<open>metadata.FromContext\<close>
  gives a metadata record, the Logger's execution id is that record's \<^verbatim>\<open>EventID\<close>, whatever
  the context holds under the package's own key; when it gives none, the id is the string
  stored under the package's key (the value \<^verbatim>\<open>ForRequest\<close> puts there); and when there is
  neither, which includes the nil context, the id is empty.
\<close>

theorem factory_execution_id_precedence:
  assumes "(name, f, sev) \<in> set factories"
  shows "(\<forall>m. fst (FromContext ctx) = Some m \<longrightarrow> Logger_id (f ctx) = EventID m) \<and>
         (\<forall>c x. ctx = Some c \<and> fst (FromContext ctx) = None \<and>
                Value c contextKey = Some (stringVal x) \<longrightarrow> Logger_id (f ctx) = x) \<and>
         (fst (FromContext ctx) = None \<and>
            (\<forall>c x. ctx = Some c \<longrightarrow> Value c contextKey \<noteq> Some (stringVal x)) \<longrightarrow>
          Logger_id (f ctx) = [])"
proof -
  have f: "f ctx = newLogger ctx sev"
    using factories_newLogger [OF assms] by simp
  have a: "Logger_id (newLogger ctx sev) = EventID m" if "fst (FromContext ctx) = Some m" for m
    using that by (cases ctx) (simp_all add: newLogger_id FromContext_nil)
  have b: "Logger_id (newLogger ctx sev) = x"
    if "ctx = Some c" "fst (FromContext ctx) = None" "Value c contextKey = Some (stringVal x)"
    for c x
    using that by (simp add: newLogger_id)
  have c: "Logger_id (newLogger ctx sev) = []"
    if "fst (FromContext ctx) = None"
      and "\<forall>c x. ctx = Some c \<longrightarrow> Value c contextKey \<noteq> Some (stringVal x)"
    using that by (cases ctx) (auto simp: newLogger_id split: option.splits ctx_val.splits)
  show ?thesis
    unfolding f using a b c by blast
qed

text \<open>
  Instances for C1: a request with both platform metadata and the header, a request with
  the header only, and the bare background context.
\<close>

theorem factory_execution_id_precedence_witness:
  "Logger_id (Notice (Some (ForRequest
      \<lparr>Request_ctx = Some (WithValue Background metadataKey (metadataVal (Some \<lparr>EventID = ''evt-1''\<rparr>))),
       Header = [''Function-Execution-Id'' \<mapsto> [''hdr-1'']]\<rparr>))) = ''evt-1'' \<and>
   Logger_id (Notice (Some (ForRequest
      \<lparr>Request_ctx = None, Header = [''Function-Execution-Id'' \<mapsto> [''hdr-1'']]\<rparr>))) = ''hdr-1'' \<and>
   Logger_id (Notice (Some Background)) = []"
proof -
  let ?r1 = "\<lparr>Request_ctx = Some (WithValue Background metadataKey (metadataVal (Some \<lparr>EventID = ''evt-1''\<rparr>))),
              Header = [''Function-Execution-Id'' \<mapsto> [''hdr-1'']]\<rparr>"
  let ?r2 = "\<lparr>Request_ctx = None, Header = [''Function-Execution-Id'' \<mapsto> [''hdr-1'']]\<rparr>"
  have n: "(''Notice'', Notice, logging_Notice) \<in> set factories"
    by (simp add: factories_def)
  have m1: "fst (FromContext (Some (ForRequest ?r1))) = Some \<lparr>EventID = ''evt-1''\<rparr>"
    by (simp add: FromContext_def ForRequest_def Request_Context_def Header_Get_def)
  have m2: "fst (FromContext (Some (ForRequest ?r2))) = None"
    by (simp add: FromContext_def ForRequest_def Request_Context_def Header_Get_def)
  have v2: "Value (ForRequest ?r2) contextKey = Some (stringVal ''hdr-1'')"
    by (simp add: ForRequest_def Request_Context_def Header_Get_def)
  have m3: "fst (FromContext (Some Background)) = None"
    by (simp add: FromContext_def)
  have v3: "\<forall>c x. Some Background = Some c \<longrightarrow> Value c contextKey \<noteq> Some (stringVal x)"
    by simp
  from factory_execution_id_precedence [OF n, of "Some (ForRequest ?r1)"] m1
  have 1: "Logger_id (Notice (Some (ForRequest ?r1))) = ''evt-1''" by simp
  from factory_execution_id_precedence [OF n, of "Some (ForRequest ?r2)"] m2 v2
  have 2: "Logger_id (Notice (Some (ForRequest ?r2))) = ''hdr-1''" by blast
  from factory_execution_id_precedence [OF n, of "Some Background"] m3 v3
  have 3: "Logger_id (Notice (Some Background)) = []" by blast
  from 1 2 3 show ?thesis by simp
qed

text \<open>
  Claim C9. When the context yields a metadata record whose \<^verbatim>\<open>EventID\<close> is the empty
  string, the Logger's execution id is empty, although the context also carries a
  non-empty id under the package's key: the header value is not consulted.
\<close>

theorem empty_event_id_suppresses_header:
  assumes "(name, f, sev) \<in> set factories"
    and "fst (FromContext (Some c)) = Some m"
    and "EventID m = []"
    and "Value c contextKey = Some (stringVal x)"
    and "x \<noteq> []"
  shows "Logger_id (f (Some c)) = []"
proof -
  have "f (Some c) = newLogger (Some c) sev"
    using factories_newLogger [OF assms(1)] by simp
  then show ?thesis
    using assms(2,3) by (simp add: newLogger_id)
qed

text \<open>
  An instance for C9: the request's context carries metadata with an empty event id, and
  its header carries \<^verbatim>\<open>hdr-1\<close>, which \<^verbatim>\<open>ForRequest\<close> stores in the context.
\<close>

theorem empty_event_id_suppresses_header_witness:
  "Value (ForRequest
      \<lparr>Request_ctx = Some (WithValue Background metadataKey (metadataVal (Some \<lparr>EventID = []\<rparr>))),
       Header = [''Function-Execution-Id'' \<mapsto> [''hdr-1'']]\<rparr>) contextKey = Some (stringVal ''hdr-1'') \<and>
   Logger_id (Warning (Some (ForRequest
      \<lparr>Request_ctx = Some (WithValue Background metadataKey (metadataVal (Some \<lparr>EventID = []\<rparr>))),
       Header = [''Function-Execution-Id'' \<mapsto> [''hdr-1'']]\<rparr>))) = []"
proof -
  let ?r = "\<lparr>Request_ctx = Some (WithValue Background metadataKey (metadataVal (Some \<lparr>EventID = []\<rparr>))),
             Header = [''Function-Execution-Id'' \<mapsto> [''hdr-1'']]\<rparr>"
  have n: "(''Warning'', Warning, logging_Warning) \<in> set factories"
    by (simp add: factories_def)
  have m: "fst (FromContext (Some (ForRequest ?r))) = Some \<lparr>EventID = []\<rparr>"
    by (simp add: FromContext_def ForRequest_def Request_Context_def Header_Get_def)
  have e: "EventID \<lparr>EventID = []\<rparr> = []" by simp
  have v: "Value (ForRequest ?r) contextKey = Some (stringVal ''hdr-1'')"
    by (simp add: ForRequest_def Request_Context_def Header_Get_def)
  have x: "''hdr-1'' \<noteq> []" by simp
  from empty_event_id_suppresses_header [OF n m e v x] v show ?thesis by simp
qed

text \<open>
  Claim C3. \<^verbatim>\<open>ForRequest\<close> reads the header \<^verbatim>\<open>Function-Execution-Id\<close>. If its value is not
  empty, the result is the request's context extended by that value under the package's
  own key: a lookup of that key gives the header value, a lookup of any other key gives
  what the request's context gives, and, when the result yields no platform metadata,
  each of the nine factories returns a Logger whose execution id is the header value.
  If the value is empty, in particular if the header is missing, the result is the
  request's context itself.
\<close>

theorem ForRequest_header_context:
  "(Header_Get (Header r) ''Function-Execution-Id'' \<noteq> [] \<longrightarrow>
      ForRequest r =
        WithValue (Request_Context r) contextKey
          (stringVal (Header_Get (Header r) ''Function-Execution-Id'')) \<and>
      Value (ForRequest r) contextKey =
        Some (stringVal (Header_Get (Header r) ''Function-Execution-Id'')) \<and>
      (\<forall>k. k \<noteq> contextKey \<longrightarrow> Value (ForRequest r) k = Value (Request_Context r) k) \<and>
      (fst (FromContext (Some (ForRequest r))) = None \<longrightarrow>
         (\<forall>(name, f, sev) \<in> set factories.
            Logger_id (f (Some (ForRequest r))) = Header_Get (Header r) ''Function-Execution-Id''))) \<and>
   (Header_Get (Header r) ''Function-Execution-Id'' = [] \<longrightarrow> ForRequest r = Request_Context r) \<and>
   (Header r ''Function-Execution-Id'' = None \<longrightarrow> ForRequest r = Request_Context r)"
proof -
  let ?h = "Header_Get (Header r) ''Function-Execution-Id''"
  have 1: "ForRequest r = WithValue (Request_Context r) contextKey (stringVal ?h)" if "?h \<noteq> []"
    using that by (simp add: ForRequest_def)
  have 2: "Logger_id (f (Some (ForRequest r))) = ?h"
    if "?h \<noteq> []" "fst (FromContext (Some (ForRequest r))) = None"
      "(name, f, sev) \<in> set factories" for name f sev
  proof -
    have "f (Some (ForRequest r)) = newLogger (Some (ForRequest r)) sev"
      using factories_newLogger [OF that(3)] by simp
    then show ?thesis
      using that(2) 1 [OF that(1)] by (simp add: newLogger_id)
  qed
  have 3: "ForRequest r = Request_Context r" if "?h = []"
    using that by (simp add: ForRequest_def)
  have 4: "?h = []" if "Header r ''Function-Execution-Id'' = None"
    using that by (simp add: Header_Get_def)
  show ?thesis
    using 1 2 3 4 by auto
qed

text \<open>
  Instances for C3: a request with two values of the header (the first counts) and no
  context of its own, and a request without the header.
\<close>

theorem ForRequest_header_context_witness:
  "ForRequest \<lparr>Request_ctx = None, Header = [''Function-Execution-Id'' \<mapsto> [''abc'', ''def'']]\<rparr> =
     WithValue Background contextKey (stringVal ''abc'') \<and>
   Logger_id (Debug (Some (ForRequest
     \<lparr>Request_ctx = None, Header = [''Function-Execution-Id'' \<mapsto> [''abc'', ''def'']]\<rparr>))) = ''abc'' \<and>
   ForRequest \<lparr>Request_ctx = Some (WithValue Background (otherKey ''k'') (otherVal ''v'')),
               Header = Map.empty\<rparr> = WithValue Background (otherKey ''k'') (otherVal ''v'')"
proof -
  let ?r1 = "\<lparr>Request_ctx = None, Header = [''Function-Execution-Id'' \<mapsto> [''abc'', ''def'']]\<rparr>"
  let ?r2 = "\<lparr>Request_ctx = Some (WithValue Background (otherKey ''k'') (otherVal ''v'')),
              Header = Map.empty\<rparr>"
  have h1: "Header_Get (Header ?r1) ''Function-Execution-Id'' = ''abc''"
    by (simp add: Header_Get_def)
  have c1: "Request_Context ?r1 = Background"
    by (simp add: Request_Context_def)
  have d: "(''Debug'', Debug, logging_Debug) \<in> set factories"
    by (simp add: factories_def)
  have m1: "fst (FromContext (Some (WithValue Background contextKey (stringVal ''abc'')))) = None"
    by (simp add: FromContext_def)
  have h2: "Header ?r2 ''Function-Execution-Id'' = None" by simp
  have c2: "Request_Context ?r2 = WithValue Background (otherKey ''k'') (otherVal ''v'')"
    by (simp add: Request_Context_def)
  have a: "ForRequest ?r1 = WithValue Background contextKey (stringVal ''abc'')"
    using ForRequest_header_context [of ?r1] h1 c1 by simp
  have b: "Logger_id (Debug (Some (ForRequest ?r1))) = ''abc''"
    using ForRequest_header_context [of ?r1] h1 a m1 d by force
  have c: "ForRequest ?r2 = WithValue Background (otherKey ''k'') (otherVal ''v'')"
    using ForRequest_header_context [of ?r2] h2 c2 by simp
  from a b c show ?thesis by simp
qed

subsection \<open>Trailing newlines\<close>

lemma TrimRight_append_newlines:
  "TrimRight (msg @ replicate n (CHR 0x0A)) ''\<newline>'' = TrimRight msg ''\<newline>''"
  by (simp add: TrimRight_newline trimRightByte_append_replicate)

lemma log_TrimRight: "log l msg w = log l (TrimRight msg ''\<newline>'') w"
proof -
  have "TrimRight (TrimRight msg ''\<newline>'') ''\<newline>'' = TrimRight msg ''\<newline>''"
    using trimRightByte_no_trailing [of msg "CHR 0x0A"]
    by (simp add: TrimRight_newline trimRightByte_unchanged)
  then show ?thesis by (simp add: log_def)
qed

text \<open>
  Claim C5. \<^verbatim>\<open>log\<close> strips every trailing newline of the formatted text before it
  dispatches: for every Logger and every state of the process, \<^verbatim>\<open>Println("a")\<close> and
  \<^verbatim>\<open>Print("a\n")\<close> have the same effect, that of logging \<^verbatim>\<open>a\<close>; with a backend the
  payload of the new entry is \<^verbatim>\<open>a\<close> in both cases. In general, appending newlines to a
  text does not change what is logged, and the trimmed text never ends in a newline.
\<close>

theorem Println_Print_same_payload:
  "Println l [StringOp ''a''] w = Print l [StringOp ''a\<newline>''] w \<and>
   Println l [StringOp ''a''] w = log l ''a'' w \<and>
   TrimRight (fmt_Sprintln [StringOp ''a'']) ''\<newline>'' = ''a'' \<and>
   TrimRight (fmt_Sprint [StringOp ''a\<newline>'']) ''\<newline>'' = ''a'' \<and>
   (\<forall>lg. logger w = Some lg \<longrightarrow>
      map Payload (handed (Println l [StringOp ''a''] w)) = map Payload (handed w) @ [''a''] \<and>
      map Payload (handed (Print l [StringOp ''a\<newline>''] w)) = map Payload (handed w) @ [''a'']) \<and>
   (\<forall>msg n. log l (msg @ replicate n (CHR 0x0A)) w = log l msg w) \<and>
   (\<forall>msg. \<not> (\<exists>t. TrimRight msg ''\<newline>'' = t @ ''\<newline>''))"
proof -
  have t1: "TrimRight (fmt_Sprintln [StringOp ''a'']) ''\<newline>'' = ''a''"
    by (simp add: fmt_Sprintln_def TrimRight_def trimRightByte.simps)
  have t2: "TrimRight (fmt_Sprint [StringOp ''a\<newline>'']) ''\<newline>'' = ''a''"
    by (simp add: fmt_Sprint_def TrimRight_def trimRightByte.simps)
  have t3: "TrimRight ''a'' ''\<newline>'' = ''a''"
    by (simp add: TrimRight_def trimRightByte.simps)
  have p1: "Println l [StringOp ''a''] w = log l ''a'' w"
    unfolding Println_def using log_TrimRight [of l "fmt_Sprintln [StringOp ''a'']" w] t1 by simp
  have p2: "Print l [StringOp ''a\<newline>''] w = log l ''a'' w"
    unfolding Print_def using log_TrimRight [of l "fmt_Sprint [StringOp ''a\<newline>'']" w] t2 by simp
  have h: "map Payload (handed (log l ''a'' w)) = map Payload (handed w) @ [''a'']"
    if "logger w = Some lg" for lg
    using that t3 by (simp add: log_set)
  have g: "log l (msg @ replicate n (CHR 0x0A)) w = log l msg w" for msg n
    by (simp add: log_def TrimRight_append_newlines)
  have e: "\<not> (\<exists>t. TrimRight msg ''\<newline>'' = t @ ''\<newline>'')" for msg
    using trimRightByte_no_trailing [of msg "CHR 0x0A"] by (auto simp: TrimRight_newline)
  show ?thesis
    using t1 t2 p1 p2 h g e by simp
qed

text \<open>
  An instance for C5: both calls on an \<^verbatim>\<open>Alert\<close> Logger, with a backend that has received
  nothing yet.
\<close>

theorem Println_Print_same_payload_witness:
  "map Payload (handed (Println (Alert None) [StringOp ''a'']
      \<lparr>logger = Some \<lparr>client = \<lparr>parent = ''p''\<rparr>, logID = ''l'',
                        commonResource = \<lparr>res_Type = ''cloud_function'', res_Labels = Map.empty\<rparr>\<rparr>,
       stdout = [], stderr = [], handed = []\<rparr>)) = [''a''] \<and>
   map Payload (handed (Print (Alert None) [StringOp ''a\<newline>'']
      \<lparr>logger = Some \<lparr>client = \<lparr>parent = ''p''\<rparr>, logID = ''l'',
                        commonResource = \<lparr>res_Type = ''cloud_function'', res_Labels = Map.empty\<rparr>\<rparr>,
       stdout = [], stderr = [], handed = []\<rparr>)) = [''a'']"
  using Println_Print_same_payload [of "Alert None"
      "\<lparr>logger = Some \<lparr>client = \<lparr>parent = ''p''\<rparr>, logID = ''l'',
                        commonResource = \<lparr>res_Type = ''cloud_function'', res_Labels = Map.empty\<rparr>\<rparr>,
       stdout = [], stderr = [], handed = []\<rparr>"]
  by simp

text \<open>
  Claim C10. Only trailing newline bytes are stripped: a text whose last byte is not a
  newline comes back unchanged from under any number of newlines appended to it, whatever
  that byte is (a carriage return, a blank) and whatever comes before it (newlines
  included). So \<^verbatim>\<open>Print("a\r\n")\<close> logs \<^verbatim>\<open>a\r\<close>, and with a backend that is the payload
  of the new entry.
\<close>

theorem TrimRight_strips_only_newlines:
  "(c \<noteq> CHR 0x0A \<longrightarrow>
      TrimRight (s @ [c] @ replicate k (CHR 0x0A)) ''\<newline>'' = s @ [c]) \<and>
   TrimRight (replicate k (CHR 0x0A)) ''\<newline>'' = [] \<and>
   TrimRight (''a'' @ [CHR 0x0D, CHR 0x0A]) ''\<newline>'' = ''a'' @ [CHR 0x0D] \<and>
   Print l [StringOp (''a'' @ [CHR 0x0D, CHR 0x0A])] w = log l (''a'' @ [CHR 0x0D]) w \<and>
   (\<forall>lg. logger w = Some lg \<longrightarrow>
      map Payload (handed (Print l [StringOp (''a'' @ [CHR 0x0D, CHR 0x0A])] w)) =
        map Payload (handed w) @ [''a'' @ [CHR 0x0D]])"
proof -
  have a: "TrimRight (s @ [c] @ replicate k (CHR 0x0A)) ''\<newline>'' = s @ [c]" if "c \<noteq> CHR 0x0A"
  proof -
    have "trimRightByte ((s @ [c]) @ replicate k (CHR 0x0A)) (CHR 0x0A) = trimRightByte (s @ [c]) (CHR 0x0A)"
      by (rule trimRightByte_append_replicate)
    also have "\<dots> = s @ [c]"
      using that by (simp add: trimRightByte_unchanged)
    finally show ?thesis by (simp add: TrimRight_newline)
  qed
  have b: "TrimRight (replicate k (CHR 0x0A)) ''\<newline>'' = []"
    using trimRightByte_append_replicate [of "[]" k "CHR 0x0A"]
    by (simp add: TrimRight_newline trimRightByte_unchanged)
  have t: "TrimRight (''a'' @ [CHR 0x0D, CHR 0x0A]) ''\<newline>'' = ''a'' @ [CHR 0x0D]"
    by (simp add: TrimRight_def trimRightByte.simps)
  have t': "TrimRight (''a'' @ [CHR 0x0D]) ''\<newline>'' = ''a'' @ [CHR 0x0D]"
    by (simp add: TrimRight_def trimRightByte.simps)
  have p: "Print l [StringOp (''a'' @ [CHR 0x0D, CHR 0x0A])] w = log l (''a'' @ [CHR 0x0D]) w"
    unfolding Print_def
    using log_TrimRight [of l "fmt_Sprint [StringOp (''a'' @ [CHR 0x0D, CHR 0x0A])]" w] t
    by (simp add: fmt_Sprint_def)
  have h: "map Payload (handed (log l (''a'' @ [CHR 0x0D]) w)) = map Payload (handed w) @ [''a'' @ [CHR 0x0D]]"
    if "logger w = Some lg" for lg
    using that t' by (simp add: log_set)
  show ?thesis
    using a b t p h by simp
qed

text \<open>
  Instances for C10: a text with an interior newline, a blank and a final carriage return
  under three newlines; and \<^verbatim>\<open>Info(nil).Print("a\r\n")\<close> on the console.
\<close>

theorem TrimRight_strips_only_newlines_witness:
  "TrimRight (''x\<newline>y z'' @ [CHR 0x0D] @ replicate 3 (CHR 0x0A)) ''\<newline>'' = ''x\<newline>y z'' @ [CHR 0x0D] \<and>
   stdout (Print (Info None) [StringOp (''a'' @ [CHR 0x0D, CHR 0x0A])]
      \<lparr>logger = None, stdout = [], stderr = [], handed = []\<rparr>) = ''a'' @ [CHR 0x0D, CHR 0x0A]"
proof -
  have c: "CHR 0x0D \<noteq> CHR 0x0A" by simp
  have 1: "TrimRight (''x\<newline>y z'' @ [CHR 0x0D] @ replicate 3 (CHR 0x0A)) ''\<newline>'' = ''x\<newline>y z'' @ [CHR 0x0D]"
    using TrimRight_strips_only_newlines [of "CHR 0x0D" "''x\<newline>y z''" 3] c by blast
  have s: "\<not> logging_Error \<le> Logger_s (Info None)"
    by (simp add: Info_def newLogger_def logging_Info_def logging_Error_def)
  have 2: "stdout (Print (Info None) [StringOp (''a'' @ [CHR 0x0D, CHR 0x0A])]
      \<lparr>logger = None, stdout = [], stderr = [], handed = []\<rparr>) = ''a'' @ [CHR 0x0D, CHR 0x0A]"
    using TrimRight_strips_only_newlines [of _ _ _ "Info None"
        "\<lparr>logger = None, stdout = [], stderr = [], handed = []\<rparr>"] s
    by (simp add: log_unset TrimRight_def trimRightByte.simps)
  from 1 2 show ?thesis by simp
qed

subsection \<open>Flush and initialisation\<close>

text \<open>
  Claim C6. \<^verbatim>\<open>Flush\<close> returns nil, without calling the backend, when \<^verbatim>\<open>logger\<close> is nil;
  when \<^verbatim>\<open>logger\<close> is set it returns what the backend's own \<^verbatim>\<open>Flush\<close> returns for that
  logger, nil or the error of the transmission.
\<close>

theorem Flush_delegates:
  "(logger w = None \<longrightarrow> Flush backend_Flush w = None) \<and>
   (\<forall>lg. logger w = Some lg \<longrightarrow> Flush backend_Flush w = backend_Flush lg)"
  by (simp add: Flush_def)

text \<open>
  Instances for C6: without a backend the result is nil even for a flush that would
  fail; with one, the backend's answer comes back.
\<close>

theorem Flush_delegates_witness:
  "Flush (\<lambda>lg. Some ''deadline exceeded'') \<lparr>logger = None, stdout = [], stderr = [], handed = []\<rparr> = None \<and>
   Flush (\<lambda>lg. Some (logID lg))
     \<lparr>logger = Some \<lparr>client = \<lparr>parent = ''p''\<rparr>, logID = ''l'',
                       commonResource = \<lparr>res_Type = ''cloud_function'', res_Labels = Map.empty\<rparr>\<rparr>,
      stdout = [], stderr = [], handed = []\<rparr> = Some ''l''"
proof -
  have 1: "Flush (\<lambda>lg. Some ''deadline exceeded'') \<lparr>logger = None, stdout = [], stderr = [], handed = []\<rparr> = None"
    using Flush_delegates [of "\<lparr>logger = None, stdout = [], stderr = [], handed = []\<rparr>"
        "\<lambda>lg. Some ''deadline exceeded''"]
    by simp
  have 2: "Flush (\<lambda>lg. Some (logID lg))
     \<lparr>logger = Some \<lparr>client = \<lparr>parent = ''p''\<rparr>, logID = ''l'',
                       commonResource = \<lparr>res_Type = ''cloud_function'', res_Labels = Map.empty\<rparr>\<rparr>,
      stdout = [], stderr = [], handed = []\<rparr> = Some ''l''"
    using Flush_delegates [of "\<lparr>logger = Some \<lparr>client = \<lparr>parent = ''p''\<rparr>, logID = ''l'',
                       commonResource = \<lparr>res_Type = ''cloud_function'', res_Labels = Map.empty\<rparr>\<rparr>,
      stdout = [], stderr = [], handed = []\<rparr>" "\<lambda>lg. Some (logID lg)"]
    by simp
  from 1 2 show ?thesis by simp
qed

lemma Getenv_unset: "env k = None \<Longrightarrow> Getenv env k = []"
  by (simp add: Getenv_def)

lemma init_empty_variable:
  assumes "Getenv env ''GCP_PROJECT'' = [] \<or> Getenv env ''FUNCTION_NAME'' = [] \<or>
           Getenv env ''FUNCTION_REGION'' = []"
  shows "\<exists>v \<in> {''GCP_PROJECT'', ''FUNCTION_NAME'', ''FUNCTION_REGION''}.
           Getenv env v = [] \<and>
           init NewClient env w =
             w\<lparr>stderr := stderr w @ ''Failed to create logging client: '' @ v @
                           '' environment variable unset or missing\<newline>''\<rparr>"
proof (cases "Getenv env ''GCP_PROJECT'' = []")
  case True
  then have "init NewClient env w =
      w\<lparr>stderr := stderr w @ ''Failed to create logging client: '' @ ''GCP_PROJECT'' @
                    '' environment variable unset or missing\<newline>''\<rparr>"
    by (simp add: init_def fmt_Fprintln_Stderr_def fmt_Sprintln_def)
  with True show ?thesis by blast
next
  case p: False
  show ?thesis
  proof (cases "Getenv env ''FUNCTION_NAME'' = []")
    case True
    with p have "init NewClient env w =
        w\<lparr>stderr := stderr w @ ''Failed to create logging client: '' @ ''FUNCTION_NAME'' @
                      '' environment variable unset or missing\<newline>''\<rparr>"
      by (simp add: init_def fmt_Fprintln_Stderr_def fmt_Sprintln_def)
    with True show ?thesis by blast
  next
    case f: False
    with p assms have r: "Getenv env ''FUNCTION_REGION'' = []" by simp
    with p f have "init NewClient env w =
        w\<lparr>stderr := stderr w @ ''Failed to create logging client: '' @ ''FUNCTION_REGION'' @
                      '' environment variable unset or missing\<newline>''\<rparr>"
      by (simp add: init_def fmt_Fprintln_Stderr_def fmt_Sprintln_def)
    with r show ?thesis by blast
  qed
qed

text \<open>
  Claim C7. Started with \<^verbatim>\<open>logger\<close> nil and with one of \<^verbatim>\<open>GCP_PROJECT\<close>, \<^verbatim>\<open>FUNCTION_NAME\<close>,
  \<^verbatim>\<open>FUNCTION_REGION\<close> missing from the environment, \<^verbatim>\<open>init\<close> returns with \<^verbatim>\<open>logger\<close> still
  nil, having written one warning line that names an empty variable to the error stream
  and nothing else. Every later call of \<^verbatim>\<open>Print\<close>, \<^verbatim>\<open>Println\<close> or \<^verbatim>\<open>Printf\<close> hands nothing
  to a backend and writes its line to the console stream of its severity.
\<close>

theorem init_missing_variable:
  assumes "logger w = None"
    and "env ''GCP_PROJECT'' = None \<or> env ''FUNCTION_NAME'' = None \<or>
         env ''FUNCTION_REGION'' = None"
  shows "logger (init NewClient env w) = None \<and>
         (\<exists>v \<in> {''GCP_PROJECT'', ''FUNCTION_NAME'', ''FUNCTION_REGION''}.
            Getenv env v = [] \<and>
            stderr (init NewClient env w) =
              stderr w @ ''Failed to create logging client: '' @ v @
                '' environment variable unset or missing\<newline>'') \<and>
         stdout (init NewClient env w) = stdout w \<and>
         handed (init NewClient env w) = handed w \<and>
         (\<forall>call msg l v Sprintf format.
            (call, msg) \<in> {(Print l v, fmt_Sprint v), (Println l v, fmt_Sprintln v),
                            (Printf Sprintf l format v, Sprintf format v)} \<longrightarrow>
            handed (call (init NewClient env w)) = handed w \<and>
            (if Logger_s l \<ge> logging_Error
             then stderr (call (init NewClient env w)) =
                    stderr (init NewClient env w) @ TrimRight msg ''\<newline>'' @ ''\<newline>'' \<and>
                  stdout (call (init NewClient env w)) = stdout w
             else stdout (call (init NewClient env w)) =
                    stdout w @ TrimRight msg ''\<newline>'' @ ''\<newline>'' \<and>
                  stderr (call (init NewClient env w)) = stderr (init NewClient env w)))"
proof -
  from assms(2) have "Getenv env ''GCP_PROJECT'' = [] \<or> Getenv env ''FUNCTION_NAME'' = [] \<or>
      Getenv env ''FUNCTION_REGION'' = []"
    using Getenv_unset [of env] by blast
  from init_empty_variable [OF this, of NewClient w] obtain v where
    v: "v \<in> {''GCP_PROJECT'', ''FUNCTION_NAME'', ''FUNCTION_REGION''}" "Getenv env v = []" and
    i: "init NewClient env w =
          w\<lparr>stderr := stderr w @ ''Failed to create logging client: '' @ v @
                        '' environment variable unset or missing\<newline>''\<rparr>"
    by blast
  let ?w = "init NewClient env w"
  have l: "logger ?w = None" and o: "stdout ?w = stdout w" and h: "handed ?w = handed w"
    and e: "stderr ?w = stderr w @ ''Failed to create logging client: '' @ v @
                '' environment variable unset or missing\<newline>''"
    using assms(1) by (simp_all add: i)
  have c: "handed (call ?w) = handed w \<and>
      (if Logger_s l \<ge> logging_Error
       then stderr (call ?w) = stderr ?w @ TrimRight msg ''\<newline>'' @ ''\<newline>'' \<and>
            stdout (call ?w) = stdout w
       else stdout (call ?w) = stdout w @ TrimRight msg ''\<newline>'' @ ''\<newline>'' \<and>
            stderr (call ?w) = stderr ?w)"
    if "(call, msg) \<in> {(Print l v, fmt_Sprint v), (Println l v, fmt_Sprintln v),
                        (Printf Sprintf l format v, Sprintf format v)}"
    for call msg l v Sprintf format
  proof -
    from that have "call ?w = log l msg ?w"
      by (auto simp: Print_def Println_def Printf_def)
    then show ?thesis
      using l o h by (simp add: log_unset)
  qed
  from v e have x: "\<exists>v \<in> {''GCP_PROJECT'', ''FUNCTION_NAME'', ''FUNCTION_REGION''}.
            Getenv env v = [] \<and>
            stderr ?w = stderr w @ ''Failed to create logging client: '' @ v @
                '' environment variable unset or missing\<newline>''"
    by blast
  from l x o h c show ?thesis by blast
qed

text \<open>
  An instance for C7: \<^verbatim>\<open>FUNCTION_NAME\<close> is missing; then \<^verbatim>\<open>Info(nil).Println("hello")\<close>
  writes \<^verbatim>\<open>hello\<close> and a newline to standard output.
\<close>

theorem init_missing_variable_witness:
  "stderr (init (\<lambda>p. Inr \<lparr>parent = p\<rparr>)
            [''GCP_PROJECT'' \<mapsto> ''proj'', ''FUNCTION_REGION'' \<mapsto> ''eu'']
            \<lparr>logger = None, stdout = [], stderr = [], handed = []\<rparr>) =
     ''Failed to create logging client: FUNCTION_NAME environment variable unset or missing\<newline>'' \<and>
   logger (init (\<lambda>p. Inr \<lparr>parent = p\<rparr>)
            [''GCP_PROJECT'' \<mapsto> ''proj'', ''FUNCTION_REGION'' \<mapsto> ''eu'']
            \<lparr>logger = None, stdout = [], stderr = [], handed = []\<rparr>) = None \<and>
   stdout (Println (Info None) [StringOp ''hello'']
            (init (\<lambda>p. Inr \<lparr>parent = p\<rparr>)
               [''GCP_PROJECT'' \<mapsto> ''proj'', ''FUNCTION_REGION'' \<mapsto> ''eu'']
               \<lparr>logger = None, stdout = [], stderr = [], handed = []\<rparr>)) = ''hello\<newline>'' \<and>
   handed (Println (Info None) [StringOp ''hello'']
            (init (\<lambda>p. Inr \<lparr>parent = p\<rparr>)
               [''GCP_PROJECT'' \<mapsto> ''proj'', ''FUNCTION_REGION'' \<mapsto> ''eu'']
               \<lparr>logger = None, stdout = [], stderr = [], handed = []\<rparr>)) = []"
proof -
  define w where "w = \<lparr>logger = None, stdout = [], stderr = [], handed = []\<rparr>"
  define env where "env = [''GCP_PROJECT'' \<mapsto> ''proj'', ''FUNCTION_REGION'' \<mapsto> ''eu'']"
  define nc where "nc = (\<lambda>p. Inr \<lparr>parent = p\<rparr> :: string + Client)"
  have h1: "logger w = None" by (simp add: w_def)
  have h2: "env ''GCP_PROJECT'' = None \<or> env ''FUNCTION_NAME'' = None \<or>
            env ''FUNCTION_REGION'' = None"
    by (simp add: env_def)
  note t = init_missing_variable [OF h1 h2, of nc]
  have g: "Getenv env ''GCP_PROJECT'' = ''proj''" "Getenv env ''FUNCTION_REGION'' = ''eu''"
    by (simp_all add: Getenv_def env_def)
  have w0: "stderr w = []" "stdout w = []" "handed w = []"
    by (simp_all add: w_def)
  have 1: "stderr (init nc env w) =
     ''Failed to create logging client: FUNCTION_NAME environment variable unset or missing\<newline>''"
    using t [THEN conjunct2, THEN conjunct1] g w0 by auto
  have 2: "logger (init nc env w) = None"
    using t [THEN conjunct1] .
  have m: "(Println (Info None) [StringOp ''hello''], fmt_Sprintln [StringOp ''hello'']) \<in>
      {(Print (Info None) [StringOp ''hello''], fmt_Sprint [StringOp ''hello'']),
       (Println (Info None) [StringOp ''hello''], fmt_Sprintln [StringOp ''hello'']),
       (Printf (\<lambda>f a. f) (Info None) [] [StringOp ''hello''], (\<lambda>f a. f) [] [StringOp ''hello''])}"
    by simp
  have s: "\<not> logging_Error \<le> Logger_s (Info None)"
    by (simp add: Info_def newLogger_def logging_Info_def logging_Error_def)
  have tr: "TrimRight (fmt_Sprintln [StringOp ''hello'']) ''\<newline>'' = ''hello''"
    by (simp add: fmt_Sprintln_def TrimRight_def trimRightByte.simps)
  note c = t [THEN conjunct2, THEN conjunct2, THEN conjunct2, THEN conjunct2]
  from c [rule_format, OF m] s tr w0
  have 3: "stdout (Println (Info None) [StringOp ''hello''] (init nc env w)) = ''hello\<newline>''"
    and 4: "handed (Println (Info None) [StringOp ''hello''] (init nc env w)) = []"
    by simp_all
  from 1 2 3 4 have "stderr (init nc env w) =
     ''Failed to create logging client: FUNCTION_NAME environment variable unset or missing\<newline>'' \<and>
     logger (init nc env w) = None \<and>
     stdout (Println (Info None) [StringOp ''hello''] (init nc env w)) = ''hello\<newline>'' \<and>
     handed (Println (Info None) [StringOp ''hello''] (init nc env w)) = []"
    by (intro conjI)
  then show ?thesis
    unfolding w_def env_def nc_def .
qed

subsection \<open>The nine factories\<close>

text \<open>
  Claim C8. The package exports nine factories, \<^verbatim>\<open>Default\<close> to \<^verbatim>\<open>Emergency\<close>; each returns,
  for every context, a Logger whose severity is the constant of the same name; and these
  severities increase strictly in the order default, debug, info, notice, warning, error,
  critical, alert, emergency.
\<close>

theorem nine_factories_ordered:
  "length factories = 9 \<and>
   map fst factories =
     [''Default'', ''Debug'', ''Info'', ''Notice'', ''Warning'', ''Error'', ''Critical'',
      ''Alert'', ''Emergency''] \<and>
   map (\<lambda>(name, f, sev). Logger_s (f ctx)) factories = map (\<lambda>(name, f, sev). sev) factories \<and>
   Logger_s (Default ctx) = logging_Default \<and>
   Logger_s (Debug ctx) = logging_Debug \<and>
   Logger_s (Info ctx) = logging_Info \<and>
   Logger_s (Notice ctx) = logging_Notice \<and>
   Logger_s (Warning ctx) = logging_Warning \<and>
   Logger_s (Error ctx) = logging_Error \<and>
   Logger_s (Critical ctx) = logging_Critical \<and>
   Logger_s (Alert ctx) = logging_Alert \<and>
   Logger_s (Emergency ctx) = logging_Emergency \<and>
   logging_Default < logging_Debug \<and> logging_Debug < logging_Info \<and>
   logging_Info < logging_Notice \<and> logging_Notice < logging_Warning \<and>
   logging_Warning < logging_Error \<and> logging_Error < logging_Critical \<and>
   logging_Critical < logging_Alert \<and> logging_Alert < logging_Emergency \<and>
   sorted_wrt (<) (map (\<lambda>(name, f, sev). Logger_s (f ctx)) factories)"
proof -
  have s: "Logger_s (Default ctx) = logging_Default" "Logger_s (Debug ctx) = logging_Debug"
    "Logger_s (Info ctx) = logging_Info" "Logger_s (Notice ctx) = logging_Notice"
    "Logger_s (Warning ctx) = logging_Warning" "Logger_s (Error ctx) = logging_Error"
    "Logger_s (Critical ctx) = logging_Critical" "Logger_s (Alert ctx) = logging_Alert"
    "Logger_s (Emergency ctx) = logging_Emergency"
    by (simp_all add: factory_defs newLogger_s)
  have o: "logging_Default < logging_Debug" "logging_Debug < logging_Info"
    "logging_Info < logging_Notice" "logging_Notice < logging_Warning"
    "logging_Warning < logging_Error" "logging_Error < logging_Critical"
    "logging_Critical < logging_Alert" "logging_Alert < logging_Emergency"
    by (simp_all add: severity_defs)
  have m: "map (\<lambda>(name, f, sev). Logger_s (f ctx)) factories =
      [logging_Default, logging_Debug, logging_Info, logging_Notice, logging_Warning,
       logging_Error, logging_Critical, logging_Alert, logging_Emergency]"
    by (simp add: factories_def s)
  have m': "map (\<lambda>(name, f, sev). sev) factories =
      [logging_Default, logging_Debug, logging_Info, logging_Notice, logging_Warning,
       logging_Error, logging_Critical, logging_Alert, logging_Emergency]"
    by (simp add: factories_def)
  have w: "sorted_wrt (<) (map (\<lambda>(name, f, sev). Logger_s (f ctx)) factories)"
    unfolding m by (simp add: severity_defs)
  have n: "length factories = 9" by (simp add: factories_def)
  have f: "map fst factories =
     [''Default'', ''Debug'', ''Info'', ''Notice'', ''Warning'', ''Error'', ''Critical'',
      ''Alert'', ''Emergency'']"
    by (simp add: factories_def)
  show ?thesis
    using s o m m' w n f by simp
qed

end
